theory Spec2Isabelle
  imports Complex_Main "HOL-Library.Log_Nat"
begin

section \<open>Floating-point numbers\<close>

text \<open>
  The trading loop of \<^verbatim>\<open>autotrade.py\<close> is embedded as functions on an explicit
  database state. A Python float is an IEEE double: a finite value, an infinity or a
  NaN. Every arithmetic operation computes the exact result and rounds it to the nearest
  double, a tie to the even significand; a result too large becomes an infinity. The
  sign of a zero is not kept: no operation of the program tells the two zeros apart.
  Timestamps, which the program stores as ISO texts and compares as texts, are natural
  numbers. Texts are strings of bytes (UTF-8).
\<close>

datatype pyfloat = Finite real | PosInf | NegInf | NaN

instantiation pyfloat :: zero
begin

definition zero_pyfloat :: pyfloat where
  "zero_pyfloat = Finite 0"

instance ..

end

definition pow2 :: "int \<Rightarrow> real" where
  "pow2 e = (if 0 \<le> e then 2 ^ nat e else 1 / 2 ^ nat (- e))"

text \<open>The integer part of the binary logarithm of a positive number.\<close>

definition ilog2 :: "real \<Rightarrow> int" where
  "ilog2 y = (if 1 \<le> y then bitlen \<lfloor>y\<rfloor> - 1 else - bitlen (\<lceil>1 / y\<rceil> - 1))"

definition round_half_even :: "real \<Rightarrow> int" where
  "round_half_even x =
     (let f = \<lfloor>x\<rfloor>; r = x - of_int f
      in if r < 1 / 2 then f
         else if 1 / 2 < r then f + 1
         else if even f then f else f + 1)"

text \<open>
  The nearest number with a significand of 53 bits and an exponent of at least -1074
  (the subnormal range), with no bound on its size.
\<close>

definition nearest_double :: "real \<Rightarrow> real" where
  "nearest_double x =
     (if x = 0 then 0
      else (let e = max (ilog2 \<bar>x\<bar> - 52) (- 1074)
            in sgn x * of_int (round_half_even (\<bar>x\<bar> / pow2 e)) * pow2 e))"

definition to_double :: "real \<Rightarrow> pyfloat" where
  "to_double x =
     (let y = nearest_double x
      in if 2 ^ 1024 \<le> y then PosInf else if y \<le> - (2 ^ 1024) then NegInf else Finite y)"

text \<open>The sign of a float that is not a NaN.\<close>

definition sign_of :: "pyfloat \<Rightarrow> int" where
  "sign_of a =
     (case a of
        Finite x \<Rightarrow> (if x < 0 then - 1 else if x = 0 then 0 else 1)
      | PosInf \<Rightarrow> 1
      | NegInf \<Rightarrow> - 1
      | NaN \<Rightarrow> 0)"

definition signed_inf :: "int \<Rightarrow> pyfloat" where
  "signed_inf s = (if s = 0 then NaN else if 0 < s then PosInf else NegInf)"

definition fneg :: "pyfloat \<Rightarrow> pyfloat" where
  "fneg a = (case a of Finite x \<Rightarrow> Finite (- x) | PosInf \<Rightarrow> NegInf | NegInf \<Rightarrow> PosInf
             | NaN \<Rightarrow> NaN)"

definition fadd :: "pyfloat \<Rightarrow> pyfloat \<Rightarrow> pyfloat" where
  "fadd a b =
     (case (a, b) of
        (Finite x, Finite y) \<Rightarrow> to_double (x + y)
      | (NaN, _) \<Rightarrow> NaN
      | (_, NaN) \<Rightarrow> NaN
      | (Finite x, _) \<Rightarrow> b
      | (_, Finite y) \<Rightarrow> a
      | _ \<Rightarrow> if a = b then a else NaN)"

definition fsub :: "pyfloat \<Rightarrow> pyfloat \<Rightarrow> pyfloat" where
  "fsub a b = fadd a (fneg b)"

definition fmul :: "pyfloat \<Rightarrow> pyfloat \<Rightarrow> pyfloat" where
  "fmul a b =
     (case (a, b) of
        (Finite x, Finite y) \<Rightarrow> to_double (x * y)
      | (NaN, _) \<Rightarrow> NaN
      | (_, NaN) \<Rightarrow> NaN
      | _ \<Rightarrow> signed_inf (sign_of a * sign_of b))"

datatype error =
    JSONDecodeError
  | RecursionError
  | KeyError
  | TypeError
  | ValueError
  | OverflowError
  | AttributeError
  | ZeroDivisionError
  | StorageError
  | ExchangeError

text \<open>Python's \<^verbatim>\<open>/\<close> on floats raises on a divisor of zero, whatever the dividend.\<close>

definition fdiv :: "pyfloat \<Rightarrow> pyfloat \<Rightarrow> error + pyfloat" where
  "fdiv a b =
     (if b = Finite 0 then Inl ZeroDivisionError
      else Inr (case (a, b) of
                  (Finite x, Finite y) \<Rightarrow> to_double (x / y)
                | (NaN, _) \<Rightarrow> NaN
                | (_, NaN) \<Rightarrow> NaN
                | (Finite x, _) \<Rightarrow> Finite 0
                | (_, Finite y) \<Rightarrow> signed_inf (sign_of a * sign_of b)
                | _ \<Rightarrow> NaN))"

text \<open>\<^verbatim>\<open>a < b\<close>; a comparison with a NaN is false.\<close>

definition flt :: "pyfloat \<Rightarrow> pyfloat \<Rightarrow> bool" where
  "flt a b =
     (case (a, b) of
        (Finite x, Finite y) \<Rightarrow> x < y
      | (NaN, _) \<Rightarrow> False
      | (_, NaN) \<Rightarrow> False
      | (NegInf, _) \<Rightarrow> b \<noteq> NegInf
      | (_, PosInf) \<Rightarrow> a \<noteq> PosInf
      | _ \<Rightarrow> False)"

text \<open>\<^verbatim>\<open>math.ceil\<close> gives an integer and raises on an infinity or a NaN.\<close>

definition py_ceil :: "pyfloat \<Rightarrow> error + int" where
  "py_ceil a =
     (case a of
        Finite x \<Rightarrow> Inr \<lceil>x\<rceil>
      | NaN \<Rightarrow> Inl ValueError
      | _ \<Rightarrow> Inl OverflowError)"

text \<open>
  The float nearest to a quotient of integers (\<^verbatim>\<open>k / n\<close> on integers, and for
  \<open>n = 1\<close> the conversion of an integer); a result beyond the doubles raises.
\<close>

definition int_truediv :: "int \<Rightarrow> int \<Rightarrow> error + pyfloat" where
  "int_truediv k n =
     (if n = 0 then Inl ZeroDivisionError
      else (case to_double (of_int k / of_int n) of
              Finite x \<Rightarrow> Inr (Finite x)
            | _ \<Rightarrow> Inl OverflowError))"

text \<open>
  \<^verbatim>\<open>round(x, 2)\<close>: the float nearest to the exact value of \<open>x\<close> rounded to hundredths,
  a tie to the even hundredth; an infinity or a NaN is returned as it is.
\<close>

definition py_round2 :: "pyfloat \<Rightarrow> error + pyfloat" where
  "py_round2 a =
     (case a of
        Finite x \<Rightarrow>
          (case to_double (of_int (round_half_even (x * 100)) / 100) of
             Finite y \<Rightarrow> Inr (Finite y)
           | _ \<Rightarrow> Inl OverflowError)
      | _ \<Rightarrow> Inr a)"

section \<open>Values\<close>

text \<open>
  What \<^verbatim>\<open>json.loads\<close> returns. A number written with a fraction or an exponent is a
  float, any other an integer; \<^verbatim>\<open>NaN\<close>, \<^verbatim>\<open>Infinity\<close> and \<^verbatim>\<open>-Infinity\<close> are floats.
\<close>

datatype json =
    JNull
  | JBool bool
  | JInt int
  | JFloat pyfloat
  | JString string
  | JArray "json list"
  | JObject "(string \<times> json) list"

text \<open>A Python number: an integer of any size or a float.\<close>

datatype pynum = PyInt int | PyFloat pyfloat

definition num_to_float :: "pynum \<Rightarrow> error + pyfloat" where
  "num_to_float n = (case n of PyInt i \<Rightarrow> int_truediv i 1 | PyFloat a \<Rightarrow> Inr a)"

text \<open>\<^verbatim>\<open>1 - n\<close> and \<^verbatim>\<open>1 + n\<close>: exact on an integer, rounded on a float.\<close>

definition one_minus :: "pynum \<Rightarrow> pynum" where
  "one_minus n = (case n of PyInt i \<Rightarrow> PyInt (1 - i) | PyFloat a \<Rightarrow> PyFloat (fsub (Finite 1) a))"

definition one_plus :: "pynum \<Rightarrow> pynum" where
  "one_plus n = (case n of PyInt i \<Rightarrow> PyInt (1 + i) | PyFloat a \<Rightarrow> PyFloat (fadd (Finite 1) a))"

text \<open>\<^verbatim>\<open>x * n\<close> for a float \<open>x\<close>: an integer is converted to a float first.\<close>

definition float_times :: "pyfloat \<Rightarrow> pynum \<Rightarrow> error + pyfloat" where
  "float_times x n = (case num_to_float n of Inl e \<Rightarrow> Inl e | Inr a \<Rightarrow> Inr (fmul x a))"

text \<open>
  The value a \<^verbatim>\<open>REAL\<close> column holds for a bound number: an integer of 64 bits becomes
  the nearest float.
\<close>

definition stored_real :: "pynum \<Rightarrow> pyfloat" where
  "stored_real n = (case n of PyInt i \<Rightarrow> to_double (of_int i) | PyFloat a \<Rightarrow> a)"

section \<open>The ledger\<close>

text \<open>
  One row of table \<^verbatim>\<open>trades\<close>; the four exit columns are nullable. The entry price
  and the amount are finite wherever the program writes them.
\<close>

record trade =
  t_id :: nat
  timestamp :: nat
  action :: string
  entry_price :: real
  amount :: real
  leverage :: json
  sl_price :: pyfloat
  tp_price :: pyfloat
  sl_percentage :: pyfloat
  tp_percentage :: pyfloat
  position_size_percentage :: pyfloat
  investment_amount :: pyfloat
  status :: string
  exit_price :: "real option"
  exit_timestamp :: "nat option"
  profit_loss :: "pyfloat option"
  profit_loss_percentage :: "pyfloat option"

text \<open>One row of table \<^verbatim>\<open>ai_analysis\<close>.\<close>

record analysis =
  a_id :: nat
  a_timestamp :: nat
  a_current_price :: real
  a_direction :: json
  recommended_position_size :: pyfloat
  recommended_leverage :: json
  stop_loss_percentage :: pyfloat
  take_profit_percentage :: pyfloat
  reasoning :: json
  a_trade_id :: "nat option"

record db =
  trades :: "trade list"
  analyses :: "analysis list"

definition setup_database :: db where
  "setup_database = \<lparr>trades = [], analyses = []\<rparr>"

text \<open>
  \<^verbatim>\<open>INTEGER PRIMARY KEY AUTOINCREMENT\<close>: the new key is one more than the largest key
  used so far, starting from 1 (no row is ever deleted).
\<close>

definition next_id :: "nat list \<Rightarrow> nat" where
  "next_id ids = Suc (fold max ids 0)"

text \<open>
  A lone surrogate in a text (in UTF-8 the byte ED followed by a byte from A0 on) cannot
  be encoded for the database.
\<close>

fun has_surrogate :: "string \<Rightarrow> bool" where
  "has_surrogate (a # b # r) =
     ((a = CHR 0xED \<and> (0xA0 :: nat) \<le> of_char b) \<or> has_surrogate (b # r))"
| "has_surrogate _ = False"

text \<open>
  The values SQLite binds into a \<^verbatim>\<open>NOT NULL\<close> column: no \<^verbatim>\<open>None\<close>, no list or
  dictionary, integers of 64 bits, no NaN (which SQLite stores as NULL).
\<close>

definition sql_bindable :: "json \<Rightarrow> bool" where
  "sql_bindable j =
     (case j of
        JNull \<Rightarrow> False
      | JArray _ \<Rightarrow> False
      | JObject _ \<Rightarrow> False
      | JFloat a \<Rightarrow> a \<noteq> NaN
      | JInt i \<Rightarrow> - (2 ^ 63) \<le> i \<and> i < 2 ^ 63
      | JString s \<Rightarrow> \<not> has_surrogate s
      | JBool _ \<Rightarrow> True)"

text \<open>The dictionary handed to \<^verbatim>\<open>save_trade\<close>; both call sites give all ten keys.\<close>

record trade_data =
  td_action :: string
  td_entry_price :: real
  td_amount :: real
  td_leverage :: json
  td_sl_price :: pyfloat
  td_tp_price :: pyfloat
  td_sl_percentage :: pyfloat
  td_tp_percentage :: pyfloat
  td_position_size_percentage :: pyfloat
  td_investment_amount :: pyfloat

definition insert_trade :: "nat \<Rightarrow> trade_data \<Rightarrow> db \<Rightarrow> nat \<times> db" where
  "insert_trade now td d =
     (let trade_id = next_id (map t_id (trades d));
          row = \<lparr>t_id = trade_id, timestamp = now, action = td_action td,
                 entry_price = td_entry_price td, amount = td_amount td,
                 leverage = td_leverage td, sl_price = td_sl_price td,
                 tp_price = td_tp_price td, sl_percentage = td_sl_percentage td,
                 tp_percentage = td_tp_percentage td,
                 position_size_percentage = td_position_size_percentage td,
                 investment_amount = td_investment_amount td, status = ''OPEN'',
                 exit_price = None, exit_timestamp = None, profit_loss = None,
                 profit_loss_percentage = None\<rparr>
      in (trade_id, d\<lparr>trades := trades d @ [row]\<rparr>))"

text \<open>\<^verbatim>\<open>save_trade\<close>: the insert fails when a value cannot be bound.\<close>

definition save_trade :: "nat \<Rightarrow> trade_data \<Rightarrow> db \<Rightarrow> error + nat \<times> db" where
  "save_trade now td d =
     (if sql_bindable (td_leverage td)
         \<and> NaN \<notin> set [td_sl_price td, td_tp_price td, td_sl_percentage td, td_tp_percentage td,
                        td_position_size_percentage td, td_investment_amount td]
      then Inr (insert_trade now td d)
      else Inl StorageError)"

definition save_ai_analysis ::
  "nat \<Rightarrow> real \<Rightarrow> json \<Rightarrow> pyfloat \<Rightarrow> json \<Rightarrow> pyfloat \<Rightarrow> pyfloat \<Rightarrow> json \<Rightarrow> db \<Rightarrow> nat \<times> db" where
  "save_ai_analysis now price dir psize lev sl tp why d =
     (let analysis_id = next_id (map a_id (analyses d));
          row = \<lparr>a_id = analysis_id, a_timestamp = now, a_current_price = price,
                 a_direction = dir, recommended_position_size = psize,
                 recommended_leverage = lev, stop_loss_percentage = sl,
                 take_profit_percentage = tp, reasoning = why, a_trade_id = None\<rparr>
      in (analysis_id, d\<lparr>analyses := analyses d @ [row]\<rparr>))"

text \<open>\<^verbatim>\<open>UPDATE ai_analysis SET trade_id = ? WHERE id = ?\<close>\<close>

definition link_analysis :: "nat \<Rightarrow> nat \<Rightarrow> db \<Rightarrow> db" where
  "link_analysis trade_id analysis_id d =
     d\<lparr>analyses := map (\<lambda>a. if a_id a = analysis_id then a\<lparr>a_trade_id := Some trade_id\<rparr> else a)
                        (analyses d)\<rparr>"

text \<open>
  Only the columns whose argument is not \<^verbatim>\<open>None\<close> are written; a NaN is written as
  NULL.
\<close>

definition null_if_nan :: "pyfloat \<Rightarrow> pyfloat option" where
  "null_if_nan a = (if a = NaN then None else Some a)"

definition update_row ::
  "string \<Rightarrow> real option \<Rightarrow> nat option \<Rightarrow> pyfloat option \<Rightarrow> pyfloat option \<Rightarrow> trade \<Rightarrow> trade"
  where
  "update_row st ep et pl plp r =
     (let r1 = r\<lparr>status := st\<rparr>;
          r2 = (case ep of None \<Rightarrow> r1 | Some v \<Rightarrow> r1\<lparr>exit_price := Some v\<rparr>);
          r3 = (case et of None \<Rightarrow> r2 | Some v \<Rightarrow> r2\<lparr>exit_timestamp := Some v\<rparr>);
          r4 = (case pl of None \<Rightarrow> r3 | Some v \<Rightarrow> r3\<lparr>profit_loss := null_if_nan v\<rparr>)
      in (case plp of None \<Rightarrow> r4 | Some v \<Rightarrow> r4\<lparr>profit_loss_percentage := null_if_nan v\<rparr>))"

definition update_trade_status ::
  "nat \<Rightarrow> string \<Rightarrow> real option \<Rightarrow> nat option \<Rightarrow> pyfloat option \<Rightarrow> pyfloat option \<Rightarrow> db \<Rightarrow> db"
  where
  "update_trade_status trade_id st ep et pl plp d =
     d\<lparr>trades := map (\<lambda>r. if t_id r = trade_id then update_row st ep et pl plp r else r)
                      (trades d)\<rparr>"

text \<open>
  \<^verbatim>\<open>ORDER BY timestamp DESC LIMIT 1\<close>: a row with the greatest timestamp. SQL leaves the
  choice among equal timestamps open; the model takes the first such row of the table.
\<close>

fun latest :: "trade list \<Rightarrow> trade option" where
  "latest [] = None"
| "latest (r # rs) =
     (case latest rs of
        None \<Rightarrow> Some r
      | Some r' \<Rightarrow> if timestamp r < timestamp r' then Some r' else Some r)"

definition get_latest_open_trade :: "db \<Rightarrow> trade option" where
  "get_latest_open_trade d = latest (filter (\<lambda>r. status r = ''OPEN'') (trades d))"

section \<open>Closing a trade\<close>

text \<open>
  \<^verbatim>\<open>handle_position_closure\<close>. A trade id that is \<^verbatim>\<open>None\<close> or 0 is falsy and skips the
  update; dividing by an entry price of 0 raises before anything is written. The
  profit is computed in floats, operation by operation.
\<close>

definition handle_position_closure ::
  "nat \<Rightarrow> real \<Rightarrow> string \<Rightarrow> real \<Rightarrow> nat option \<Rightarrow> db \<Rightarrow> error + db" where
  "handle_position_closure now current_price side amt current_trade_id d =
     (let tid = (case current_trade_id of
                   None \<Rightarrow> map_option t_id (get_latest_open_trade d)
                 | Some i \<Rightarrow> Some i)
      in case tid of
           None \<Rightarrow> Inr d
         | Some i \<Rightarrow>
             if i = 0 then Inr d
             else (case get_latest_open_trade d of
                     None \<Rightarrow> Inr d
                   | Some latest_trade \<Rightarrow>
                       let entry = entry_price latest_trade in
                       if action latest_trade = ''long'' then
                         (case fdiv (Finite current_price) (Finite entry) of
                            Inl e \<Rightarrow> Inl e
                          | Inr ratio \<Rightarrow>
                              Inr (update_trade_status i ''CLOSED'' (Some current_price) (Some now)
                                     (Some (fmul (fsub (Finite current_price) (Finite entry))
                                              (Finite amt)))
                                     (Some (fmul (fsub ratio (Finite 1)) (Finite 100))) d))
                       else
                         (case fdiv (Finite current_price) (Finite entry) of
                            Inl e \<Rightarrow> Inl e
                          | Inr ratio \<Rightarrow>
                              Inr (update_trade_status i ''CLOSED'' (Some current_price) (Some now)
                                     (Some (fmul (fsub (Finite entry) (Finite current_price))
                                              (Finite amt)))
                                     (Some (fmul (fsub (Finite 1) ratio) (Finite 100))) d))))"

section \<open>Performance queries\<close>

text \<open>
  Of the two queries the counts and the win rate are modelled. Their sums, averages and
  extremes of the profit columns are computed inside SQLite and are left out.
  \<^verbatim>\<open>profit_loss > 0\<close> and \<^verbatim>\<open>profit_loss < 0\<close>: a comparison with NULL is not true.
\<close>

definition is_win :: "trade \<Rightarrow> bool" where
  "is_win r = (case profit_loss r of None \<Rightarrow> False | Some x \<Rightarrow> flt (Finite 0) x)"

definition is_loss :: "trade \<Rightarrow> bool" where
  "is_loss r = (case profit_loss r of None \<Rightarrow> False | Some x \<Rightarrow> flt x (Finite 0))"

record trade_summary =
  total_trades :: nat
  winning_trades :: nat
  losing_trades :: nat

text \<open>
  The three counts both queries share, over the selected rows.
  \<^verbatim>\<open>SUM(CASE WHEN c THEN 1 ELSE 0 END) or 0\<close> is the number of rows with \<^verbatim>\<open>c\<close>.
\<close>

definition summarise :: "trade list \<Rightarrow> trade_summary" where
  "summarise rows =
     \<lparr>total_trades = length rows,
      winning_trades = length (filter is_win rows),
      losing_trades = length (filter is_loss rows)\<rparr>"

text \<open>
  \<^verbatim>\<open>get_trade_summary\<close>: rows with an exit timestamp opened at or after the cutoff
  (\<^verbatim>\<open>datetime('now', '-7 days')\<close>, here a point of the abstract clock).
\<close>

definition summary_rows :: "nat \<Rightarrow> db \<Rightarrow> trade list" where
  "summary_rows cutoff d =
     filter (\<lambda>r. exit_timestamp r \<noteq> None \<and> cutoff \<le> timestamp r) (trades d)"

definition get_trade_summary :: "nat \<Rightarrow> db \<Rightarrow> trade_summary" where
  "get_trade_summary cutoff d = summarise (summary_rows cutoff d)"

text \<open>
  \<^verbatim>\<open>(winning / total) * 100\<close>: the quotient of the two counts as a float, times 100; the
  integer 0 without trades.
\<close>

definition win_rate_of :: "nat \<Rightarrow> nat \<Rightarrow> pyfloat" where
  "win_rate_of winning n =
     (if 0 < n then fmul (to_double (real winning / real n)) (Finite 100) else Finite 0)"

record overall_metrics = trade_summary +
  win_rate :: pyfloat

record performance_metrics =
  overall :: overall_metrics
  directional :: "string \<Rightarrow> overall_metrics option"

definition closed_rows :: "db \<Rightarrow> trade list" where
  "closed_rows d = filter (\<lambda>r. status r = ''CLOSED'') (trades d)"

definition overall_of :: "trade list \<Rightarrow> overall_metrics" where
  "overall_of rows =
     trade_summary.extend (summarise rows)
       (overall_metrics.fields (win_rate_of (length (filter is_win rows)) (length rows)))"

text \<open>\<^verbatim>\<open>get_performance_metrics\<close>; \<^verbatim>\<open>GROUP BY action\<close> has a group for each action present.\<close>

definition get_performance_metrics :: "db \<Rightarrow> performance_metrics" where
  "get_performance_metrics d =
     \<lparr>overall = overall_of (closed_rows d),
      directional = (\<lambda>a. case filter (\<lambda>r. action r = a) (closed_rows d) of
                            [] \<Rightarrow> None
                          | r # rs \<Rightarrow> Some (overall_of (r # rs)))\<rparr>"

section \<open>Text\<close>

text \<open>
  The characters \<^verbatim>\<open>str.strip()\<close> removes, as UTF-8: U+0009 to U+000D, U+001C to
  U+0020, U+0085, U+00A0, U+1680, U+2000 to U+200A, U+2028, U+2029, U+202F, U+205F and
  U+3000.
\<close>

definition unicode_spaces :: "string list" where
  "unicode_spaces =
     [[CHR 0x09], [CHR 0x0A], [CHR 0x0B], [CHR 0x0C], [CHR 0x0D],
      [CHR 0x1C], [CHR 0x1D], [CHR 0x1E], [CHR 0x1F], [CHR 0x20],
      [CHR 0xC2, CHR 0x85], [CHR 0xC2, CHR 0xA0], [CHR 0xE1, CHR 0x9A, CHR 0x80],
      [CHR 0xE2, CHR 0x80, CHR 0x80], [CHR 0xE2, CHR 0x80, CHR 0x81],
      [CHR 0xE2, CHR 0x80, CHR 0x82], [CHR 0xE2, CHR 0x80, CHR 0x83],
      [CHR 0xE2, CHR 0x80, CHR 0x84], [CHR 0xE2, CHR 0x80, CHR 0x85],
      [CHR 0xE2, CHR 0x80, CHR 0x86], [CHR 0xE2, CHR 0x80, CHR 0x87],
      [CHR 0xE2, CHR 0x80, CHR 0x88], [CHR 0xE2, CHR 0x80, CHR 0x89],
      [CHR 0xE2, CHR 0x80, CHR 0x8A], [CHR 0xE2, CHR 0x80, CHR 0xA8],
      [CHR 0xE2, CHR 0x80, CHR 0xA9], [CHR 0xE2, CHR 0x80, CHR 0xAF],
      [CHR 0xE2, CHR 0x81, CHR 0x9F], [CHR 0xE3, CHR 0x80, CHR 0x80]]"

definition startswith :: "string \<Rightarrow> string \<Rightarrow> bool" where
  "startswith s p \<longleftrightarrow> take (length p) s = p"

text \<open>The length of the first of the given sequences the text starts with, or 0.\<close>

definition space_len :: "string list \<Rightarrow> string \<Rightarrow> nat" where
  "space_len seqs s = (case find (startswith s) seqs of None \<Rightarrow> 0 | Some w \<Rightarrow> length w)"

fun lstrip_with :: "string list \<Rightarrow> string \<Rightarrow> string" where
  "lstrip_with seqs [] = []"
| "lstrip_with seqs (c # cs) =
     (if space_len seqs (c # cs) = 0 then c # cs
      else lstrip_with seqs (drop (space_len seqs (c # cs) - 1) cs))"

definition lstrip :: "string \<Rightarrow> string" where
  "lstrip s = lstrip_with unicode_spaces s"

definition rstrip :: "string \<Rightarrow> string" where
  "rstrip s = rev (lstrip_with (map rev unicode_spaces) (rev s))"

definition strip :: "string \<Rightarrow> string" where
  "strip s = lstrip (rstrip s)"

text \<open>\<^verbatim>\<open>s.split("\n", 1)[1]\<close>, when the split has a second part.\<close>

definition after_first_newline :: "string \<Rightarrow> string option" where
  "after_first_newline s =
     (case dropWhile (\<lambda>c. c \<noteq> CHR 0x0A) s of [] \<Rightarrow> None | _ # r \<Rightarrow> Some r)"

text \<open>The index of the first occurrence of a text in another.\<close>

fun find_sub :: "string \<Rightarrow> string \<Rightarrow> nat option" where
  "find_sub pat [] = (if pat = [] then Some 0 else None)"
| "find_sub pat (c # cs) =
     (if startswith (c # cs) pat then Some 0 else map_option Suc (find_sub pat cs))"

text \<open>\<^verbatim>\<open>s.rsplit(sep, 1)[0]\<close>: what precedes the last occurrence of the separator.\<close>

definition rsplit_head :: "string \<Rightarrow> string \<Rightarrow> string" where
  "rsplit_head sep s =
     (case find_sub (rev sep) (rev s) of
        None \<Rightarrow> s
      | Some i \<Rightarrow> rev (drop (i + length sep) (rev s)))"

definition fence :: string where
  "fence = [CHR 0x60, CHR 0x60, CHR 0x60]"

text \<open>The clean-up of fenced code blocks, applied to the stripped response.\<close>

definition strip_code_fence :: "string \<Rightarrow> string" where
  "strip_code_fence response_content =
     (if startswith response_content fence then
        (let rc1 = (case after_first_newline response_content of
                      None \<Rightarrow> response_content
                    | Some r \<Rightarrow> r);
             rc2 = (if find_sub fence rc1 \<noteq> None then rsplit_head fence rc1 else rc1)
         in strip rc2)
      else response_content)"

definition clean_response :: "string \<Rightarrow> string" where
  "clean_response content = strip_code_fence (strip content)"

text \<open>\<^verbatim>\<open>str.lower()\<close> on the ASCII letters; it is only compared with ASCII words.\<close>

definition lower_char :: "char \<Rightarrow> char" where
  "lower_char c =
     (let n = (of_char c :: nat) in if 65 \<le> n \<and> n \<le> 90 then char_of (n + 32) else c)"

definition lower :: "string \<Rightarrow> string" where
  "lower s = map lower_char s"

section \<open>The JSON decoder\<close>

text \<open>
  \<^verbatim>\<open>json.loads\<close> of the Python standard library, which is not part of the repository,
  written after the grammar its decoder accepts: a lexer, and a stack automaton that
  reads the tokens from left to right as the decoder reads the text. A text outside the
  grammar raises \<^verbatim>\<open>JSONDecodeError\<close>. Two limits of the interpreter are parameters:
  the number of containers that may be open inside one another before the decoder raises
  \<^verbatim>\<open>RecursionError\<close>, and the number of digits an integer may have before its
  conversion raises \<^verbatim>\<open>ValueError\<close> (\<open>None\<close> where the interpreter has no such limit).
\<close>

definition is_digit :: "char \<Rightarrow> bool" where
  "is_digit c \<longleftrightarrow> c \<in> set ''0123456789''"

definition digit_val :: "char \<Rightarrow> nat" where
  "digit_val c = of_char c - 48"

definition digits_val :: "string \<Rightarrow> nat" where
  "digits_val ds = fold (\<lambda>c n. 10 * n + digit_val c) ds 0"

definition hex_val :: "char \<Rightarrow> nat option" where
  "hex_val c = map_of (zip ''0123456789abcdef'' [0..<16] @ zip ''ABCDEF'' [10..<16]) c"

definition decode_uXXXX :: "string \<Rightarrow> nat option" where
  "decode_uXXXX s =
     (case map hex_val (take 4 s) of
        [Some a, Some b, Some c, Some d] \<Rightarrow> Some (((a * 16 + b) * 16 + c) * 16 + d)
      | _ \<Rightarrow> None)"

text \<open>The UTF-8 bytes of a code point (a lone surrogate is written the same way).\<close>

definition utf8 :: "nat \<Rightarrow> string" where
  "utf8 n =
     (if n < 0x80 then [char_of n]
      else if n < 0x800 then [char_of (0xC0 + n div 0x40), char_of (0x80 + n mod 0x40)]
      else if n < 0x10000 then
        [char_of (0xE0 + n div 0x1000), char_of (0x80 + n div 0x40 mod 0x40),
         char_of (0x80 + n mod 0x40)]
      else
        [char_of (0xF0 + n div 0x40000), char_of (0x80 + n div 0x1000 mod 0x40),
         char_of (0x80 + n div 0x40 mod 0x40), char_of (0x80 + n mod 0x40)])"

definition backslash :: "char \<Rightarrow> char option" where
  "backslash e =
     map_of [(CHR 0x22, CHR 0x22), (CHR 0x5C, CHR 0x5C), (CHR ''/'', CHR ''/''),
             (CHR ''b'', CHR 0x08), (CHR ''f'', CHR 0x0C), (CHR ''n'', CHR 0x0A),
             (CHR ''r'', CHR 0x0D), (CHR ''t'', CHR 0x09)] e"

text \<open>The low surrogate escape that follows a high surrogate, if there is one.\<close>

definition low_surrogate :: "nat \<Rightarrow> string \<Rightarrow> nat option" where
  "low_surrogate uni s =
     (if 0xD800 \<le> uni \<and> uni \<le> 0xDBFF \<and> startswith s [CHR 0x5C, CHR ''u''] then
        (case decode_uXXXX (drop 2 s) of
           None \<Rightarrow> None
         | Some uni2 \<Rightarrow> if 0xDC00 \<le> uni2 \<and> uni2 \<le> 0xDFFF then Some uni2 else None)
      else None)"

text \<open>
  The body of a string literal, from after the opening quote: the decoded text and the
  number of characters read, closing quote included.
\<close>

fun scan_string :: "string \<Rightarrow> (string \<times> nat) option" where
  "scan_string [] = None"
| "scan_string (c # cs) =
     (if c = CHR 0x22 then Some ([], 1)
      else if c = CHR 0x5C then
        (case cs of
           [] \<Rightarrow> None
         | e # r \<Rightarrow>
             if e = CHR ''u'' then
               (case decode_uXXXX r of
                  None \<Rightarrow> None
                | Some uni \<Rightarrow>
                    (case low_surrogate uni (drop 4 r) of
                       Some uni2 \<Rightarrow>
                         (case scan_string (drop 10 r) of
                            None \<Rightarrow> None
                          | Some (str, n) \<Rightarrow>
                              Some (utf8 (0x10000 + (uni - 0xD800) * 0x400 + (uni2 - 0xDC00)) @ str,
                                    n + 12))
                     | None \<Rightarrow>
                         (case scan_string (drop 4 r) of
                            None \<Rightarrow> None
                          | Some (str, n) \<Rightarrow> Some (utf8 uni @ str, n + 6))))
             else
               (case backslash e of
                  None \<Rightarrow> None
                | Some ch \<Rightarrow>
                    (case scan_string r of
                       None \<Rightarrow> None
                     | Some (str, n) \<Rightarrow> Some (ch # str, n + 2))))
      else if (of_char c :: nat) < 32 then None
      else (case scan_string cs of
              None \<Rightarrow> None
            | Some (str, n) \<Rightarrow> Some (c # str, Suc n)))"

text \<open>
  The number pattern \<^verbatim>\<open>(-?(?:0|[1-9]\d*))(\.\d+)?([eE][-+]?\d+)?\<close>, part by part; an
  empty result is no match.
\<close>

definition match_int :: "string \<Rightarrow> string" where
  "match_int s =
     (case s of
        [] \<Rightarrow> []
      | c # cs \<Rightarrow> if c = CHR ''0'' then [c]
                  else if is_digit c then c # takeWhile is_digit cs
                  else [])"

definition match_frac :: "string \<Rightarrow> string" where
  "match_frac s =
     (case s of [] \<Rightarrow> [] | c # cs \<Rightarrow> if c = CHR ''.'' then takeWhile is_digit cs else [])"

text \<open>The exponent: length of its mark and sign, whether it is negative, its digits.\<close>

definition match_exp :: "string \<Rightarrow> nat \<times> bool \<times> string" where
  "match_exp s =
     (case s of
        [] \<Rightarrow> (0, False, [])
      | e # r \<Rightarrow>
          if e = CHR ''e'' \<or> e = CHR ''E'' then
            (case r of
               [] \<Rightarrow> (0, False, [])
             | sg # r' \<Rightarrow>
                 if sg = CHR ''-'' then (2, True, takeWhile is_digit r')
                 else if sg = CHR ''+'' then (2, False, takeWhile is_digit r')
                 else (1, False, takeWhile is_digit r))
          else (0, False, []))"

text \<open>
  A number literal: its value and its length; \<open>None\<close> if the text does not start with
  one. The value of a float literal is the double nearest to the number written; an
  integer with too many digits has no value.
\<close>

definition lex_number :: "nat option \<Rightarrow> string \<Rightarrow> (json option \<times> nat) option" where
  "lex_number max_digits s =
     (let neg = startswith s ''-'';
          s1 = (if neg then tl s else s);
          ip = match_int s1
      in if ip = [] then None
         else
           (let s2 = drop (length ip) s1;
                fp = match_frac s2;
                s3 = (if fp = [] then s2 else drop (Suc (length fp)) s2);
                ex = match_exp s3;
                ed = snd (snd ex);
                n = (if neg then 1 else 0) + length ip
                    + (if fp = [] then 0 else Suc (length fp))
                    + (if ed = [] then 0 else fst ex + length ed)
            in if fp = [] \<and> ed = [] then
                 (if (case max_digits of None \<Rightarrow> False | Some m \<Rightarrow> m < length ip)
                  then Some (None, n)
                  else Some (Some (JInt (if neg then - int (digits_val ip)
                                         else int (digits_val ip))), n))
               else
                 (let m = (real (digits_val ip) + real (digits_val fp) / 10 ^ length fp)
                          * (if fst (snd ex) then 1 / 10 ^ digits_val ed else 10 ^ digits_val ed)
                  in Some (Some (JFloat (to_double (if neg then - m else m))), n))))"

text \<open>
  The tokens. \<open>TooLong\<close> is an integer beyond the digit limit; \<open>Garbage\<close> ends the list
  where the text cannot be read further.
\<close>

datatype token =
  LBrace | RBrace | LBracket | RBracket | Colon | Comma | Scalar json | TooLong | Garbage

definition json_ws :: "char \<Rightarrow> bool" where
  "json_ws c \<longleftrightarrow> c \<in> set [CHR 0x20, CHR 0x09, CHR 0x0A, CHR 0x0D]"

fun tokenise :: "nat option \<Rightarrow> string \<Rightarrow> token list" where
  "tokenise md [] = []"
| "tokenise md (c # cs) =
     (if json_ws c then tokenise md cs
      else if c = CHR 0x22 then
        (case scan_string cs of
           None \<Rightarrow> [Garbage]
         | Some (str, n) \<Rightarrow> Scalar (JString str) # tokenise md (drop n cs))
      else if c = CHR ''{'' then LBrace # tokenise md cs
      else if c = CHR ''}'' then RBrace # tokenise md cs
      else if c = CHR ''['' then LBracket # tokenise md cs
      else if c = CHR '']'' then RBracket # tokenise md cs
      else if c = CHR '':'' then Colon # tokenise md cs
      else if c = CHR '','' then Comma # tokenise md cs
      else if startswith (c # cs) ''null'' then Scalar JNull # tokenise md (drop 3 cs)
      else if startswith (c # cs) ''true'' then Scalar (JBool True) # tokenise md (drop 3 cs)
      else if startswith (c # cs) ''false'' then Scalar (JBool False) # tokenise md (drop 4 cs)
      else
        (case lex_number md (c # cs) of
           Some (v, n) \<Rightarrow>
             (case v of None \<Rightarrow> TooLong | Some j \<Rightarrow> Scalar j) # tokenise md (drop (n - 1) cs)
         | None \<Rightarrow>
             if startswith (c # cs) ''NaN'' then
               Scalar (JFloat NaN) # tokenise md (drop 2 cs)
             else if startswith (c # cs) ''Infinity'' then
               Scalar (JFloat PosInf) # tokenise md (drop 7 cs)
             else if startswith (c # cs) ''-Infinity'' then
               Scalar (JFloat NegInf) # tokenise md (drop 8 cs)
             else [Garbage]))"

text \<open>
  The automaton: what may come next, and the containers still open, innermost first
  (members and elements in reverse).
\<close>

datatype frame =
    ArrayFrame "json list"
  | ObjectFrame "(string \<times> json) list"
  | MemberFrame "(string \<times> json) list" string

datatype expect = ExpValue | ExpValueOrEnd | ExpKeyOrEnd | ExpKey | ExpColon string | Got json

definition value_start ::
  "nat \<Rightarrow> token \<Rightarrow> frame list \<Rightarrow> error + expect \<times> frame list" where
  "value_start depth t stk =
     (case t of
        Scalar v \<Rightarrow> Inr (Got v, stk)
      | TooLong \<Rightarrow> Inl ValueError
      | LBracket \<Rightarrow> if depth \<le> length stk then Inl RecursionError
                     else Inr (ExpValueOrEnd, ArrayFrame [] # stk)
      | LBrace \<Rightarrow> if depth \<le> length stk then Inl RecursionError
                   else Inr (ExpKeyOrEnd, ObjectFrame [] # stk)
      | _ \<Rightarrow> Inl JSONDecodeError)"

definition key_start :: "token \<Rightarrow> frame list \<Rightarrow> error + expect \<times> frame list" where
  "key_start t stk =
     (case t of Scalar (JString k) \<Rightarrow> Inr (ExpColon k, stk) | _ \<Rightarrow> Inl JSONDecodeError)"

definition parse_step ::
  "nat \<Rightarrow> expect \<Rightarrow> frame list \<Rightarrow> token \<Rightarrow> error + expect \<times> frame list" where
  "parse_step depth st stk t =
     (case st of
        ExpValue \<Rightarrow> value_start depth t stk
      | ExpValueOrEnd \<Rightarrow>
          (case t of
             RBracket \<Rightarrow> (case stk of ArrayFrame [] # rest \<Rightarrow> Inr (Got (JArray []), rest)
                                      | _ \<Rightarrow> Inl JSONDecodeError)
           | _ \<Rightarrow> value_start depth t stk)
      | ExpKeyOrEnd \<Rightarrow>
          (case t of
             RBrace \<Rightarrow> (case stk of ObjectFrame [] # rest \<Rightarrow> Inr (Got (JObject []), rest)
                                    | _ \<Rightarrow> Inl JSONDecodeError)
           | _ \<Rightarrow> key_start t stk)
      | ExpKey \<Rightarrow> key_start t stk
      | ExpColon k \<Rightarrow>
          (case t of
             Colon \<Rightarrow> (case stk of ObjectFrame kvs # rest \<Rightarrow> Inr (ExpValue, MemberFrame kvs k # rest)
                                   | _ \<Rightarrow> Inl JSONDecodeError)
           | _ \<Rightarrow> Inl JSONDecodeError)
      | Got v \<Rightarrow>
          (case stk of
             ArrayFrame xs # rest \<Rightarrow>
               (case t of
                  Comma \<Rightarrow> Inr (ExpValue, ArrayFrame (v # xs) # rest)
                | RBracket \<Rightarrow> Inr (Got (JArray (rev (v # xs))), rest)
                | _ \<Rightarrow> Inl JSONDecodeError)
           | MemberFrame kvs k # rest \<Rightarrow>
               (case t of
                  Comma \<Rightarrow> Inr (ExpKey, ObjectFrame ((k, v) # kvs) # rest)
                | RBrace \<Rightarrow> Inr (Got (JObject (rev ((k, v) # kvs))), rest)
                | _ \<Rightarrow> Inl JSONDecodeError)
           | _ \<Rightarrow> Inl JSONDecodeError))"

fun parse_tokens :: "nat \<Rightarrow> expect \<Rightarrow> frame list \<Rightarrow> token list \<Rightarrow> error + json" where
  "parse_tokens depth st stk [] =
     (case (st, stk) of (Got v, []) \<Rightarrow> Inr v | _ \<Rightarrow> Inl JSONDecodeError)"
| "parse_tokens depth st stk (t # ts) =
     (case parse_step depth st stk t of
        Inl e \<Rightarrow> Inl e
      | Inr (st', stk') \<Rightarrow> parse_tokens depth st' stk' ts)"

definition json_loads :: "nat \<Rightarrow> nat option \<Rightarrow> string \<Rightarrow> error + json" where
  "json_loads depth max_digits s = parse_tokens depth ExpValue [] (tokenise max_digits s)"

section \<open>Reading the decision\<close>

text \<open>
  \<^verbatim>\<open>trading_decision[key]\<close>: a dictionary built from an object with a repeated key keeps
  the last value; anything but a dictionary cannot be indexed by a text.
\<close>

definition getitem :: "json \<Rightarrow> string \<Rightarrow> error + json" where
  "getitem j k =
     (case j of
        JObject kvs \<Rightarrow> (case map_of (rev kvs) k of None \<Rightarrow> Inl KeyError | Some v \<Rightarrow> Inr v)
      | _ \<Rightarrow> Inl TypeError)"

text \<open>
  What \<^verbatim>\<open>f"{x*100:.1f}"\<close> accepts: a float, or an integer or boolean whose hundredfold
  can be converted to a float.
\<close>

definition as_number :: "json \<Rightarrow> error + pynum" where
  "as_number j =
     (case j of
        JInt i \<Rightarrow> (case int_truediv (i * 100) 1 of Inl e \<Rightarrow> Inl e | Inr _ \<Rightarrow> Inr (PyInt i))
      | JFloat a \<Rightarrow> Inr (PyFloat a)
      | JBool b \<Rightarrow> Inr (PyInt (if b then 1 else 0))
      | JString _ \<Rightarrow> Inl ValueError
      | _ \<Rightarrow> Inl TypeError)"

definition bind_err :: "error + 'a \<Rightarrow> ('a \<Rightarrow> error + 'b) \<Rightarrow> error + 'b" where
  "bind_err m f = (case m of Inl e \<Rightarrow> Inl e | Inr x \<Rightarrow> f x)"

record decision =
  dec_direction :: json
  dec_position_size :: json
  dec_leverage :: json
  dec_stop_loss :: json
  dec_take_profit :: json
  dec_reasoning :: json
  dec_size :: pynum
  dec_sl :: pynum
  dec_tp :: pynum

text \<open>
  The six look-ups of the report the loop prints before it stores anything, in the
  order of the source; three of them are formatted as numbers. Printing itself is taken
  to succeed.
\<close>

definition read_decision :: "json \<Rightarrow> error + decision" where
  "read_decision j =
     bind_err (getitem j ''direction'') (\<lambda>dir.
     bind_err (getitem j ''recommended_position_size'') (\<lambda>ps.
     bind_err (as_number ps) (\<lambda>psn.
     bind_err (getitem j ''recommended_leverage'') (\<lambda>lev.
     bind_err (getitem j ''stop_loss_percentage'') (\<lambda>sl.
     bind_err (as_number sl) (\<lambda>sln.
     bind_err (getitem j ''take_profit_percentage'') (\<lambda>tp.
     bind_err (as_number tp) (\<lambda>tpn.
     bind_err (getitem j ''reasoning'') (\<lambda>why.
       Inr \<lparr>dec_direction = dir, dec_position_size = ps, dec_leverage = lev,
            dec_stop_loss = sl, dec_take_profit = tp, dec_reasoning = why,
            dec_size = psn, dec_sl = sln, dec_tp = tpn\<rparr>)))))))))"

section \<open>Sizing the order\<close>

text \<open>
  The investment in USDT: the balance times the recommended size, and the integer 100
  when that is below 100.
\<close>

definition investment_of :: "real \<Rightarrow> pynum \<Rightarrow> error + pyfloat" where
  "investment_of available_capital size_percentage =
     (case float_times (Finite available_capital) size_percentage of
        Inl e \<Rightarrow> Inl e
      | Inr invested \<Rightarrow> Inr (if flt invested (Finite 100) then Finite 100 else invested))"

text \<open>
  \<^verbatim>\<open>math.ceil((investment_amount / current_price) * 1000) / 1000\<close>: the quotient and the
  product are floats, the ceiling is an integer, and the amount is the float nearest to
  its thousandth.
\<close>

definition order_amount :: "pyfloat \<Rightarrow> real \<Rightarrow> error + real" where
  "order_amount invested current_price =
     (case fdiv invested (Finite current_price) of
        Inl e \<Rightarrow> Inl e
      | Inr units \<Rightarrow>
          (case py_ceil (fmul units (Finite 1000)) of
             Inl e \<Rightarrow> Inl e
           | Inr k \<Rightarrow>
               (case int_truediv k 1000 of
                  Inr (Finite q) \<Rightarrow> Inr q
                | _ \<Rightarrow> Inl OverflowError)))"

text \<open>\<^verbatim>\<open>round(entry_price * (1 - pct), 2)\<close> and \<^verbatim>\<open>round(entry_price * (1 + pct), 2)\<close>.\<close>

definition price_below :: "real \<Rightarrow> pynum \<Rightarrow> error + pyfloat" where
  "price_below entry pct =
     (case float_times (Finite entry) (one_minus pct) of
        Inl e \<Rightarrow> Inl e
      | Inr x \<Rightarrow> py_round2 x)"

definition price_above :: "real \<Rightarrow> pynum \<Rightarrow> error + pyfloat" where
  "price_above entry pct =
     (case float_times (Finite entry) (one_plus pct) of
        Inl e \<Rightarrow> Inl e
      | Inr x \<Rightarrow> py_round2 x)"

section \<open>One iteration of the trading loop\<close>

text \<open>
  What the loop asks of the world in one iteration: the ticker, the positions (symbol and
  signed amount), the oracle, the free balance, whether the exchange accepts each request,
  the clock at the three writes, and the two limits of the interpreter the decoder
  depends on. \<open>None\<close> and \<open>False\<close> stand for a call that raises. The numbers the exchange
  reports are finite.
\<close>

datatype completion = CallFailed | Message "string option"

record tick_env =
  ticker_last :: "real option"
  positions :: "(string \<times> real) list option"
  response :: completion
  usdt_free :: "real option"
  leverage_ok :: bool
  entry_ok :: bool
  sl_ok :: bool
  tp_ok :: bool
  t_trade :: nat
  t_exit :: nat
  t_analysis :: nat
  max_nesting :: nat
  int_max_str_digits :: "nat option"

text \<open>
  What the loop does to the world: the requests it sends to the exchange, the waits, and
  the printing of the oracle's text. Other printing, the cancelling of left-over orders
  and the collection of market data, whose failures are handled where they occur, are
  left out.
\<close>

datatype event =
    Sleep nat
  | LogRaw string
  | SetLeverage json
  | MarketOrder string real
  | ConditionalOrder string string real pyfloat

definition is_order :: "event \<Rightarrow> bool" where
  "is_order e = (case e of MarketOrder _ _ \<Rightarrow> True | ConditionalOrder _ _ _ _ \<Rightarrow> True | _ \<Rightarrow> False)"

text \<open>The scan of the positions: the last non-zero amount of the symbol decides.\<close>

definition current_position :: "(string \<times> real) list \<Rightarrow> string option \<times> real" where
  "current_position ps =
     fold (\<lambda>(sym, amt) (side, held).
             if sym = ''BTC/USDT:USDT'' then
               (if 0 < amt then (Some ''long'', amt)
                else if amt < 0 then (Some ''short'', \<bar>amt\<bar>)
                else (side, held))
             else (side, held))
          ps (None, 0)"

text \<open>
  The entry of a long position: the market order, the two prices, the two conditional
  orders, the row. The first exception ends it; the requests before it have been sent.
\<close>

definition enter_long ::
  "tick_env \<Rightarrow> real \<Rightarrow> real \<Rightarrow> json \<Rightarrow> pynum \<Rightarrow> pynum \<Rightarrow> pynum \<Rightarrow> pyfloat \<Rightarrow> nat \<Rightarrow> db
     \<Rightarrow> error option \<times> db \<times> event list" where
  "enter_long env current_price amt lev sl_pct tp_pct size_pct invested analysis_id d =
     (let e1 = MarketOrder ''buy'' amt
      in if \<not> entry_ok env then (Some ExchangeError, d, [e1])
         else
           (case price_below current_price sl_pct of
              Inl e \<Rightarrow> (Some e, d, [e1])
            | Inr sl \<Rightarrow>
                (case price_above current_price tp_pct of
                   Inl e \<Rightarrow> (Some e, d, [e1])
                 | Inr tp \<Rightarrow>
                     (let e2 = ConditionalOrder ''STOP_MARKET'' ''sell'' amt sl;
                          e3 = ConditionalOrder ''TAKE_PROFIT_MARKET'' ''sell'' amt tp
                      in if \<not> sl_ok env then (Some ExchangeError, d, [e1, e2])
                         else if \<not> tp_ok env then (Some ExchangeError, d, [e1, e2, e3])
                         else
                           (case save_trade (t_trade env)
                                   \<lparr>td_action = ''long'', td_entry_price = current_price,
                                    td_amount = amt, td_leverage = lev, td_sl_price = sl,
                                    td_tp_price = tp, td_sl_percentage = stored_real sl_pct,
                                    td_tp_percentage = stored_real tp_pct,
                                    td_position_size_percentage = stored_real size_pct,
                                    td_investment_amount = invested\<rparr> d of
                              Inl e \<Rightarrow> (Some e, d, [e1, e2, e3])
                            | Inr saved \<Rightarrow>
                                (None, link_analysis (fst saved) analysis_id (snd saved),
                                 [e1, e2, e3]))))))"

definition enter_short ::
  "tick_env \<Rightarrow> real \<Rightarrow> real \<Rightarrow> json \<Rightarrow> pynum \<Rightarrow> pynum \<Rightarrow> pynum \<Rightarrow> pyfloat \<Rightarrow> nat \<Rightarrow> db
     \<Rightarrow> error option \<times> db \<times> event list" where
  "enter_short env current_price amt lev sl_pct tp_pct size_pct invested analysis_id d =
     (let e1 = MarketOrder ''sell'' amt
      in if \<not> entry_ok env then (Some ExchangeError, d, [e1])
         else
           (case price_above current_price sl_pct of
              Inl e \<Rightarrow> (Some e, d, [e1])
            | Inr sl \<Rightarrow>
                (case price_below current_price tp_pct of
                   Inl e \<Rightarrow> (Some e, d, [e1])
                 | Inr tp \<Rightarrow>
                     (let e2 = ConditionalOrder ''STOP_MARKET'' ''buy'' amt sl;
                          e3 = ConditionalOrder ''TAKE_PROFIT_MARKET'' ''buy'' amt tp
                      in if \<not> sl_ok env then (Some ExchangeError, d, [e1, e2])
                         else if \<not> tp_ok env then (Some ExchangeError, d, [e1, e2, e3])
                         else
                           (case save_trade (t_trade env)
                                   \<lparr>td_action = ''short'', td_entry_price = current_price,
                                    td_amount = amt, td_leverage = lev, td_sl_price = sl,
                                    td_tp_price = tp, td_sl_percentage = stored_real sl_pct,
                                    td_tp_percentage = stored_real tp_pct,
                                    td_position_size_percentage = stored_real size_pct,
                                    td_investment_amount = invested\<rparr> d of
                              Inl e \<Rightarrow> (Some e, d, [e1, e2, e3])
                            | Inr saved \<Rightarrow>
                                (None, link_analysis (fst saved) analysis_id (snd saved),
                                 [e1, e2, e3]))))))"

text \<open>
  From the balance to the orders, for a direction other than \<^verbatim>\<open>no_position\<close>: the error
  raised if any, the database and the requests sent.
\<close>

definition open_position ::
  "tick_env \<Rightarrow> real \<Rightarrow> string \<Rightarrow> pynum \<Rightarrow> json \<Rightarrow> pynum \<Rightarrow> pynum \<Rightarrow> nat \<Rightarrow> db
     \<Rightarrow> error option \<times> db \<times> event list" where
  "open_position env current_price act size_pct lev sl_pct tp_pct analysis_id d =
     (case usdt_free env of
        None \<Rightarrow> (Some ExchangeError, d, [])
      | Some available_capital \<Rightarrow>
          (case investment_of available_capital size_pct of
             Inl e \<Rightarrow> (Some e, d, [])
           | Inr invested \<Rightarrow>
               (case order_amount invested current_price of
                  Inl e \<Rightarrow> (Some e, d, [])
                | Inr amt \<Rightarrow>
                    if \<not> leverage_ok env then (Some ExchangeError, d, [SetLeverage lev])
                    else
                      (let res =
                         (if act = ''long'' then
                            enter_long env current_price amt lev sl_pct tp_pct size_pct invested
                              analysis_id d
                          else if act = ''short'' then
                            enter_short env current_price amt lev sl_pct tp_pct size_pct invested
                              analysis_id d
                          else (None, d, []))
                       in (fst res, fst (snd res), SetLeverage lev # snd (snd res))))))"

text \<open>
  The handling of the oracle's message: the fences are removed and the text decoded; a
  text that does not decode is printed again and the loop waits 30 seconds; any other
  exception costs 10 seconds. The analysis is stored once the report has been printed,
  before the direction is looked at.
\<close>

definition process_ai_response ::
  "tick_env \<Rightarrow> real \<Rightarrow> string option \<Rightarrow> db \<Rightarrow> db \<times> event list" where
  "process_ai_response env current_price content d =
     (case content of
        None \<Rightarrow> (d, [Sleep 10])
      | Some raw \<Rightarrow>
          (let response_content = strip raw;
               shown = LogRaw response_content
           in case json_loads (max_nesting env) (int_max_str_digits env)
                     (strip_code_fence response_content) of
                Inl e \<Rightarrow>
                  if e = JSONDecodeError then (d, [shown, LogRaw raw, Sleep 30])
                  else (d, [shown, Sleep 10])
              | Inr trading_decision \<Rightarrow>
                  (case read_decision trading_decision of
                     Inl e \<Rightarrow> (d, [shown, Sleep 10])
                   | Inr dec \<Rightarrow>
                       if \<not> list_all sql_bindable
                              [dec_direction dec, dec_position_size dec, dec_leverage dec,
                               dec_stop_loss dec, dec_take_profit dec, dec_reasoning dec]
                       then (d, [shown, Sleep 10])
                       else
                         (let saved = save_ai_analysis (t_analysis env) current_price
                                        (dec_direction dec) (stored_real (dec_size dec))
                                        (dec_leverage dec) (stored_real (dec_sl dec))
                                        (stored_real (dec_tp dec)) (dec_reasoning dec) d;
                              analysis_id = fst saved;
                              d1 = snd saved
                          in case dec_direction dec of
                               JString dir \<Rightarrow>
                                 if lower dir = ''no_position'' then (d1, [shown, Sleep 60])
                                 else
                                   (let res = open_position env current_price (lower dir)
                                                (dec_size dec) (dec_leverage dec) (dec_sl dec)
                                                (dec_tp dec) analysis_id d1
                                    in (fst (snd res),
                                        shown # snd (snd res)
                                          @ [case fst res of None \<Rightarrow> Sleep 60
                                                           | Some e \<Rightarrow> Sleep 10]))
                             | _ \<Rightarrow> (d1, [shown, Sleep 10])))))"

text \<open>
  The close-out of the flat branch: the open trade of the ledger, if there is one, is
  closed at the current price with its own amount.
\<close>

definition close_out :: "tick_env \<Rightarrow> real \<Rightarrow> db \<Rightarrow> error + db" where
  "close_out env current_price d =
     (case get_latest_open_trade d of
        None \<Rightarrow> Inr d
      | Some current_trade \<Rightarrow>
          handle_position_closure (t_exit env) current_price (action current_trade)
            (amount current_trade) (Some (t_id current_trade)) d)"

text \<open>
  The body of \<^verbatim>\<open>while True\<close>. An exception that reaches the outer handler costs 5
  seconds; what was written before it stays written.
\<close>

definition iteration :: "tick_env \<Rightarrow> db \<Rightarrow> db \<times> event list" where
  "iteration env d =
     (case ticker_last env of
        None \<Rightarrow> (d, [Sleep 5])
      | Some current_price \<Rightarrow>
          (case positions env of
             None \<Rightarrow> (d, [Sleep 5])
           | Some ps \<Rightarrow>
               (case fst (current_position ps) of
                  Some current_side \<Rightarrow>
                    (case get_latest_open_trade d of
                       Some current_trade \<Rightarrow> (d, [Sleep 60])
                     | None \<Rightarrow>
                         (case save_trade (t_trade env)
                                 \<lparr>td_action = current_side, td_entry_price = current_price,
                                  td_amount = snd (current_position ps), td_leverage = JInt 1,
                                  td_sl_price = 0, td_tp_price = 0, td_sl_percentage = 0,
                                  td_tp_percentage = 0, td_position_size_percentage = 0,
                                  td_investment_amount = 0\<rparr> d of
                            Inl e \<Rightarrow> (d, [Sleep 5])
                          | Inr saved \<Rightarrow> (snd saved, [Sleep 60])))
                | None \<Rightarrow>
                    (case close_out env current_price d of
                       Inl e \<Rightarrow> (d, [Sleep 5])
                     | Inr d1 \<Rightarrow>
                         (case response env of
                            CallFailed \<Rightarrow> (d1, [Sleep 5, Sleep 5])
                          | Message content \<Rightarrow>
                              (let res = process_ai_response env current_price content d1
                               in (fst res, Sleep 5 # snd res)))))))"

text \<open>The loop over the ticks of a run, from a given database.\<close>

fun run :: "tick_env list \<Rightarrow> db \<Rightarrow> db" where
  "run [] d = d"
| "run (env # envs) d = run envs (fst (iteration env d))"

definition open_count :: "db \<Rightarrow> nat" where
  "open_count d = length (filter (\<lambda>r. status r = ''OPEN'') (trades d))"

text \<open>The state the loop keeps: at most one open trade, and no key 0.\<close>

definition ledger_ok :: "db \<Rightarrow> bool" where
  "ledger_ok d \<longleftrightarrow> open_count d \<le> 1 \<and> 0 \<notin> set (map t_id (trades d))"

section \<open>Sample data\<close>

text \<open>A tick on which every call succeeds, and a ledger row, for concrete instances.\<close>

definition sample_tick :: tick_env where
  "sample_tick =
     \<lparr>ticker_last = Some 50000, positions = Some [], response = CallFailed,
      usdt_free = Some 1000, leverage_ok = True, entry_ok = True, sl_ok = True, tp_ok = True,
      t_trade = 7, t_exit = 8, t_analysis = 6, max_nesting = 900,
      int_max_str_digits = Some 4300\<rparr>"

definition sample_trade :: "string \<Rightarrow> real \<Rightarrow> real \<Rightarrow> trade" where
  "sample_trade side entry amt =
     \<lparr>t_id = 1, timestamp = 3, action = side, entry_price = entry, amount = amt,
      leverage = JInt 2, sl_price = 0, tp_price = 0, sl_percentage = 0, tp_percentage = 0,
      position_size_percentage = 0, investment_amount = 0, status = ''OPEN'',
      exit_price = None, exit_timestamp = None, profit_loss = None,
      profit_loss_percentage = None\<rparr>"

definition ledger_of :: "trade list \<Rightarrow> db" where
  "ledger_of rows = \<lparr>trades = rows, analyses = []\<rparr>"

text \<open>A tick on which the exchange reports a short position of half a coin.\<close>

definition found_short :: tick_env where
  "found_short =
     sample_tick\<lparr>positions := Some [(''ETH/USDT:USDT'', 2), (''BTC/USDT:USDT'', - 0.5)]\<rparr>"

section \<open>Evaluating floats\<close>

lemmas float_eval =
  to_double_def nearest_double_def ilog2_def compute_bitlen pow2_def round_half_even_def
  fadd_def fsub_def fneg_def fmul_def fdiv_def flt_def py_ceil_def int_truediv_def py_round2_def
  sign_of_def signed_inf_def Let_def

section \<open>The ledger over a run\<close>

lemma latest_None_iff: "latest rs = None \<longleftrightarrow> rs = []"
  by (induction rs) (auto split: option.splits)

lemma latest_mem: "latest rs = Some r \<Longrightarrow> r \<in> set rs"
  by (induction rs arbitrary: r) (auto split: option.splits if_splits)

lemma no_open_trade_iff: "get_latest_open_trade d = None \<longleftrightarrow> open_count d = 0"
  by (simp add: get_latest_open_trade_def open_count_def latest_None_iff)

lemma next_id_pos: "next_id ids \<noteq> 0"
  by (simp add: next_id_def)

lemma open_count_insert_trade: "open_count (snd (insert_trade now td d)) = Suc (open_count d)"
  by (simp add: insert_trade_def open_count_def Let_def)

lemma ids_insert_trade:
  "0 \<notin> set (map t_id (trades d)) \<Longrightarrow> 0 \<notin> set (map t_id (trades (snd (insert_trade now td d))))"
  by (auto simp: insert_trade_def Let_def next_id_def)

lemma trades_link_analysis: "trades (link_analysis i a d) = trades d"
  by (simp add: link_analysis_def)

lemma trades_save_ai_analysis:
  "trades (snd (save_ai_analysis now p dir ps lev sl tp why d)) = trades d"
  by (simp add: save_ai_analysis_def Let_def)

lemma status_update_row: "status (update_row st ep et pl plp r) = st"
  by (simp add: update_row_def Let_def split: option.splits)

lemma t_id_update_row: "t_id (update_row st ep et pl plp r) = t_id r"
  by (simp add: update_row_def Let_def split: option.splits)

lemma single_open:
  assumes "open_count d \<le> 1" and "get_latest_open_trade d = Some t"
    and "r \<in> set (trades d)" and "status r = ''OPEN''"
  shows "r = t"
proof -
  let ?os = "filter (\<lambda>r. status r = ''OPEN'') (trades d)"
  have "latest ?os = Some t" using assms(2) by (simp add: get_latest_open_trade_def)
  then have t: "t \<in> set ?os" by (rule latest_mem)
  have r: "r \<in> set ?os" using assms(3,4) by simp
  have "length ?os \<le> 1" using assms(1) by (simp add: open_count_def)
  then obtain x where "?os = [x]" using t
    by (cases ?os) (auto simp: le_Suc_eq)
  with t r show ?thesis by simp
qed

lemma open_count_closed:
  assumes "open_count d \<le> 1" and "get_latest_open_trade d = Some t"
  shows "open_count (update_trade_status (t_id t) ''CLOSED'' ep et pl plp d) = 0"
proof -
  have "\<not> status (if t_id r = t_id t then update_row ''CLOSED'' ep et pl plp r else r) = ''OPEN''"
    if "r \<in> set (trades d)" for r
    using single_open[OF assms that] by (auto simp: status_update_row)
  then show ?thesis
    by (simp add: open_count_def update_trade_status_def filter_map o_def)
qed

lemma ids_update_trade_status:
  "map t_id (trades (update_trade_status i st ep et pl plp d)) = map t_id (trades d)"
  by (simp add: update_trade_status_def o_def if_distrib[of t_id] t_id_update_row)

text \<open>What a closure that does not raise has written.\<close>

lemma handle_position_closure_cases:
  assumes "handle_position_closure now p side amt (Some i) d = Inr d1"
    and "get_latest_open_trade d = Some t" and "i \<noteq> 0"
  shows "\<exists>pl plp. d1 = update_trade_status i ''CLOSED'' (Some p) (Some now) (Some pl) (Some plp) d"
  using assms
  by (auto simp: handle_position_closure_def Let_def split: if_splits sum.splits)

lemma close_out_flat:
  assumes "ledger_ok d" and "close_out env p d = Inr d1"
  shows "open_count d1 = 0" and "0 \<notin> set (map t_id (trades d1))"
proof -
  have "open_count d1 = 0 \<and> 0 \<notin> set (map t_id (trades d1))"
  proof (cases "get_latest_open_trade d")
    case None
    with assms show ?thesis
      by (simp add: close_out_def ledger_ok_def no_open_trade_iff)
  next
    case (Some t)
    then have "t \<in> set (trades d)"
      using latest_mem[of "filter (\<lambda>r. status r = ''OPEN'') (trades d)" t]
      by (simp add: get_latest_open_trade_def)
    with assms(1) have id: "t_id t \<noteq> 0" by (auto simp: ledger_ok_def)
    from assms(1) have le: "open_count d \<le> 1" by (simp add: ledger_ok_def)
    from assms(2) Some have
      "handle_position_closure (t_exit env) p (action t) (amount t) (Some (t_id t)) d = Inr d1"
      by (simp add: close_out_def)
    from handle_position_closure_cases[OF this Some id] obtain pl plp where
      "d1 = update_trade_status (t_id t) ''CLOSED'' (Some p) (Some (t_exit env)) (Some pl)
              (Some plp) d"
      by blast
    with open_count_closed[OF le Some] assms(1) show ?thesis
      by (simp add: ids_update_trade_status ledger_ok_def)
  qed
  then show "open_count d1 = 0" and "0 \<notin> set (map t_id (trades d1))" by simp_all
qed

lemma grows_by_one_refl:
  "open_count d = 0 \<Longrightarrow> 0 \<notin> set (map t_id (trades d)) \<Longrightarrow> trades d' = trades d
     \<Longrightarrow> ledger_ok d'"
  by (simp add: ledger_ok_def open_count_def)

lemma grows_by_one_saved:
  "open_count d = 0 \<Longrightarrow> 0 \<notin> set (map t_id (trades d))
     \<Longrightarrow> ledger_ok (link_analysis i a (snd (insert_trade now td d)))"
  using open_count_insert_trade[of now td d] ids_insert_trade[of d now td]
  by (simp add: ledger_ok_def open_count_def trades_link_analysis)

lemma save_trade_cases:
  "save_trade now td d = Inl StorageError \<or> save_trade now td d = Inr (insert_trade now td d)"
  by (simp add: save_trade_def)

lemma enter_long_ok:
  assumes "open_count d = 0" and "0 \<notin> set (map t_id (trades d))"
  shows "ledger_ok (fst (snd (enter_long env p amt lev sl tp sz ivt aid d)))"
proof -
  have r: "ledger_ok d" using grows_by_one_refl[OF assms] by simp
  have s: "ledger_ok (link_analysis i aid (snd (insert_trade now td d)))" for i now td
    by (rule grows_by_one_saved[OF assms])
  have c: "ledger_ok (link_analysis a aid b)" if "save_trade now td d = Inr (a, b)"
    for now td a b
  proof -
    from that have "insert_trade now td d = (a, b)"
      using save_trade_cases[of now td d] by auto
    then have "b = snd (insert_trade now td d)" by simp
    then show ?thesis using s[of a now td] by simp
  qed
  show ?thesis
    using r c by (simp add: enter_long_def Let_def split: sum.splits)
qed

lemma enter_short_ok:
  assumes "open_count d = 0" and "0 \<notin> set (map t_id (trades d))"
  shows "ledger_ok (fst (snd (enter_short env p amt lev sl tp sz ivt aid d)))"
proof -
  have r: "ledger_ok d" using grows_by_one_refl[OF assms] by simp
  have s: "ledger_ok (link_analysis i aid (snd (insert_trade now td d)))" for i now td
    by (rule grows_by_one_saved[OF assms])
  have c: "ledger_ok (link_analysis a aid b)" if "save_trade now td d = Inr (a, b)"
    for now td a b
  proof -
    from that have "insert_trade now td d = (a, b)"
      using save_trade_cases[of now td d] by auto
    then have "b = snd (insert_trade now td d)" by simp
    then show ?thesis using s[of a now td] by simp
  qed
  show ?thesis
    using r c by (simp add: enter_short_def Let_def split: sum.splits)
qed

lemma open_position_ok:
  assumes "open_count d = 0" and "0 \<notin> set (map t_id (trades d))"
  shows "ledger_ok (fst (snd (open_position env p act sz lev sl tp aid d)))"
proof -
  have r: "ledger_ok d" using grows_by_one_refl[OF assms] by simp
  show ?thesis
    using enter_long_ok[OF assms] enter_short_ok[OF assms] r
    by (simp add: open_position_def Let_def split: option.splits sum.splits)
qed

lemma process_ai_response_ok:
  assumes "open_count d = 0" and "0 \<notin> set (map t_id (trades d))"
  shows "ledger_ok (fst (process_ai_response env p content d))"
proof -
  have r: "ledger_ok d" using grows_by_one_refl[OF assms] by simp
  have a: "open_count (snd (save_ai_analysis now p dir ps lev sl tp why d)) = 0" 
    and b: "0 \<notin> set (map t_id (trades (snd (save_ai_analysis now p dir ps lev sl tp why d))))"
    for now dir ps lev sl tp why
    using assms by (simp_all add: open_count_def trades_save_ai_analysis)
  have s: "ledger_ok (snd (save_ai_analysis now p dir ps lev sl tp why d))"
    for now dir ps lev sl tp why
    using grows_by_one_refl[OF assms trades_save_ai_analysis] .
  have o: "ledger_ok (fst (snd (open_position env p act sz lev' sl' tp' aid
             (snd (save_ai_analysis now p dir ps lev sl tp why d)))))"
    for now dir ps lev sl tp why act sz lev' sl' tp' aid
    by (rule open_position_ok[OF a b])
  show ?thesis
    using r s o
    by (simp add: process_ai_response_def Let_def split: option.splits sum.splits json.splits)
qed

lemma iteration_ok:
  assumes "ledger_ok d"
  shows "ledger_ok (fst (iteration env d))"
proof -
  have adopt: "ledger_ok (snd saved)"
    if "get_latest_open_trade d = None" and "save_trade now td d = Inr saved" for now td saved
  proof -
    from that(1) have "open_count d = 0" by (simp add: no_open_trade_iff)
    moreover from that(2) have "saved = insert_trade now td d"
      using save_trade_cases[of now td d] by auto
    ultimately show ?thesis
      using assms grows_by_one_saved[of d 0 0 now td]
      by (simp add: ledger_ok_def link_analysis_def open_count_def)
  qed
  have flat: "ledger_ok (fst (process_ai_response env p content d1))"
    if "close_out env p d = Inr d1" for p d1 content
    using process_ai_response_ok close_out_flat[OF assms that] by simp
  have flat': "ledger_ok d1" if "close_out env p d = Inr d1" for p d1
    using close_out_flat[OF assms that] by (simp add: ledger_ok_def)
  show ?thesis
    using assms adopt flat flat'
    by (simp add: iteration_def Let_def split: option.splits sum.splits completion.splits)
qed

lemma run_ok: "ledger_ok d \<Longrightarrow> ledger_ok (run envs d)"
  by (induction envs arbitrary: d) (simp_all add: iteration_ok)

text \<open>
  Claim C1. From the empty ledger, after any number of iterations of any run, whatever
  the exchange and the oracle answer and whichever calls fail, at most one row of the
  trades table is open.
\<close>

theorem single_open_invariant: "open_count (run (take n envs) setup_database) \<le> 1"
proof -
  have "ledger_ok setup_database"
    by (simp add: ledger_ok_def open_count_def setup_database_def)
  then have "ledger_ok (run (take n envs) setup_database)" by (rule run_ok)
  then show ?thesis by (simp add: ledger_ok_def)
qed

section \<open>Adopting a position\<close>

lemma current_position_reported:
  "current_position ps = (Some side, amt) \<Longrightarrow>
     \<exists>a. (''BTC/USDT:USDT'', a) \<in> set ps \<and> a \<noteq> 0
         \<and> side = (if 0 < a then ''long'' else ''short'') \<and> amt = \<bar>a\<bar>"
proof (induction ps arbitrary: side amt rule: rev_induct)
  case Nil
  then show ?case by (simp add: current_position_def)
next
  case (snoc x xs)
  obtain sym a where x: "x = (sym, a)" by (cases x)
  obtain s0 h0 where f: "current_position xs = (s0, h0)" by (cases "current_position xs")
  have step: "current_position (xs @ [x]) =
      (if sym = ''BTC/USDT:USDT'' then
         (if 0 < a then (Some ''long'', a)
          else if a < 0 then (Some ''short'', \<bar>a\<bar>) else (s0, h0))
       else (s0, h0))"
    using f unfolding current_position_def x by simp
  show ?case
  proof (cases "sym = ''BTC/USDT:USDT'' \<and> a \<noteq> 0")
    case True
    with step snoc.prems have "side = (if 0 < a then ''long'' else ''short'')" and "amt = \<bar>a\<bar>"
      by (simp_all split: if_splits)
    with True x show ?thesis by (intro exI[of _ a]) simp
  next
    case False
    with step snoc.prems have "current_position xs = (Some side, amt)"
      using f by (auto split: if_splits)
    from snoc.IH[OF this] obtain b where "(''BTC/USDT:USDT'', b) \<in> set xs" and "b \<noteq> 0"
      and "side = (if 0 < b then ''long'' else ''short'')" and "amt = \<bar>b\<bar>" by blast
    then show ?thesis by (intro exI[of _ b]) simp
  qed
qed

text \<open>
  Claim C9. When the exchange reports a position and the ledger has no open trade, the
  iteration adds exactly one row: open, with the side and the absolute amount of a
  non-zero position the exchange reported for the symbol, the ticker price as entry
  price, leverage 1, and 0 in every risk column.
\<close>

theorem adopt_path:
  assumes "ticker_last env = Some p" and "positions env = Some ps"
    and "current_position ps = (Some side, amt)" and "open_count d = 0"
  shows "iteration env d =
           (d\<lparr>trades := trades d @
                [\<lparr>t_id = next_id (map t_id (trades d)), timestamp = t_trade env, action = side,
                  entry_price = p, amount = amt, leverage = JInt 1, sl_price = 0, tp_price = 0,
                  sl_percentage = 0, tp_percentage = 0, position_size_percentage = 0,
                  investment_amount = 0, status = ''OPEN'', exit_price = None,
                  exit_timestamp = None, profit_loss = None,
                  profit_loss_percentage = None\<rparr>]\<rparr>,
            [Sleep 60])
         \<and> open_count (fst (iteration env d)) = 1
         \<and> (\<exists>a. (''BTC/USDT:USDT'', a) \<in> set ps \<and> a \<noteq> 0
                \<and> side = (if 0 < a then ''long'' else ''short'') \<and> amt = \<bar>a\<bar>)"
proof -
  from assms(4) have n: "get_latest_open_trade d = None" by (simp add: no_open_trade_iff)
  have i: "iteration env d =
           (d\<lparr>trades := trades d @
                [\<lparr>t_id = next_id (map t_id (trades d)), timestamp = t_trade env, action = side,
                  entry_price = p, amount = amt, leverage = JInt 1, sl_price = 0, tp_price = 0,
                  sl_percentage = 0, tp_percentage = 0, position_size_percentage = 0,
                  investment_amount = 0, status = ''OPEN'', exit_price = None,
                  exit_timestamp = None, profit_loss = None,
                  profit_loss_percentage = None\<rparr>]\<rparr>,
            [Sleep 60])"
    using assms(1-3) n
    by (simp add: iteration_def save_trade_def insert_trade_def sql_bindable_def
        zero_pyfloat_def Let_def)
  have "open_count (fst (iteration env d)) = 1"
    unfolding i using assms(4) by (simp add: open_count_def)
  with i current_position_reported[OF assms(3)] show ?thesis by blast
qed

text \<open>A short position of 0.5 found at 50000 with an empty ledger.\<close>

theorem adopt_path_witness:
  "iteration found_short setup_database =
     (\<lparr>trades =
          [\<lparr>t_id = 1, timestamp = 7, action = ''short'', entry_price = 50000, amount = 0.5,
            leverage = JInt 1, sl_price = 0, tp_price = 0, sl_percentage = 0, tp_percentage = 0,
            position_size_percentage = 0, investment_amount = 0, status = ''OPEN'',
            exit_price = None, exit_timestamp = None, profit_loss = None,
            profit_loss_percentage = None\<rparr>],
       analyses = []\<rparr>,
      [Sleep 60])
   \<and> open_count (fst (iteration found_short setup_database)) = 1"
proof -
  have a: "ticker_last found_short = Some 50000"
    and b: "positions found_short = Some [(''ETH/USDT:USDT'', 2), (''BTC/USDT:USDT'', - 0.5)]"
    and t: "t_trade found_short = 7"
    by (simp_all add: found_short_def sample_tick_def)
  have c: "current_position [(''ETH/USDT:USDT'', 2), (''BTC/USDT:USDT'', - 0.5)]
             = (Some ''short'', 0.5)"
    by (simp add: current_position_def)
  have e: "open_count setup_database = 0" by (simp add: open_count_def setup_database_def)
  from adopt_path[OF a b c e] show ?thesis
    by (simp add: t setup_database_def next_id_def open_count_def)
qed

section \<open>Profit and loss on closure\<close>

lemma latest_open_sample:
  "get_latest_open_trade (ledger_of [sample_trade s e a]) = Some (sample_trade s e a)"
  by (simp add: get_latest_open_trade_def ledger_of_def sample_trade_def)

text \<open>
  Claim C2, as the spec states it, fails on its own examples: the percentage is computed
  in floats. On a tick that finds the exchange flat at 110, the long trade entered at 100
  with amount 1 is closed with the percentage \<open>5629499534213125 / 2 ^ 49\<close>, which prints
  as 10.000000000000009; the short trade closed at 90 gets \<open>5629499534213119 / 2 ^ 49\<close>,
  which prints as 9.999999999999998. Neither is 10.
\<close>

theorem closure_percentage_counterexample:
  "map (\<lambda>r. (status r, exit_price r, profit_loss r, profit_loss_percentage r))
     (trades (fst (iteration (sample_tick\<lparr>ticker_last := Some 110\<rparr>)
                     (ledger_of [sample_trade ''long'' 100 1]))))
     = [(''CLOSED'', Some 110, Some (Finite 10), Some (Finite (5629499534213125 / 2 ^ 49)))]
   \<and> map (\<lambda>r. (status r, exit_price r, profit_loss r, profit_loss_percentage r))
     (trades (fst (iteration (sample_tick\<lparr>ticker_last := Some 90\<rparr>)
                     (ledger_of [sample_trade ''short'' 100 1]))))
     = [(''CLOSED'', Some 90, Some (Finite 10), Some (Finite (5629499534213119 / 2 ^ 49)))]
   \<and> Finite (5629499534213125 / 2 ^ 49) \<noteq> Finite 10
   \<and> Finite (5629499534213119 / 2 ^ 49) \<noteq> Finite 10"
  by (simp add: iteration_def sample_tick_def current_position_def close_out_def
      get_latest_open_trade_def handle_position_closure_def update_trade_status_def
      update_row_def null_if_nan_def sample_trade_def ledger_of_def float_eval)

text \<open>
  Claim C2, amended. When the loop finds the exchange flat and the ledger holds an open
  trade whose entry price is not 0, the trade is closed with the current price as exit
  price, and profit and loss come from the ledger's entry price and amount in float
  arithmetic, every operation rounded to the nearest double: for a long trade
  \<open>(exit - entry) * amount\<close> and \<open>(exit / entry - 1) * 100\<close>, for a short trade
  \<open>(entry - exit) * amount\<close> and \<open>(1 - exit / entry) * 100\<close>.
\<close>

theorem closure_profit_loss:
  assumes "get_latest_open_trade d = Some t" and "t_id t \<noteq> 0" and "entry_price t \<noteq> 0"
  shows "close_out env p d =
           Inr (update_trade_status (t_id t) ''CLOSED'' (Some p) (Some (t_exit env))
                  (Some (if action t = ''long''
                         then fmul (to_double (p - entry_price t)) (Finite (amount t))
                         else fmul (to_double (entry_price t - p)) (Finite (amount t))))
                  (Some (if action t = ''long''
                         then fmul (fsub (to_double (p / entry_price t)) (Finite 1)) (Finite 100)
                         else fmul (fsub (Finite 1) (to_double (p / entry_price t))) (Finite 100)))
                  d)"
  using assms
  by (simp add: close_out_def handle_position_closure_def Let_def fdiv_def fsub_def fadd_def
      fneg_def)

text \<open>
  Long with entry 100, exit 110, amount 1, and short with entry 100, exit 90, amount 1:
  both close with a profit of exactly 10; the percentages are the doubles next to 10
  that print as 10.000000000000009 and 9.999999999999998.
\<close>

theorem closure_profit_loss_witness:
  "map (\<lambda>r. (status r, exit_price r, profit_loss r, profit_loss_percentage r))
     (trades (projr (close_out sample_tick 110 (ledger_of [sample_trade ''long'' 100 1]))))
     = [(''CLOSED'', Some 110, Some (Finite 10), Some (Finite (5629499534213125 / 2 ^ 49)))]
   \<and> map (\<lambda>r. (status r, exit_price r, profit_loss r, profit_loss_percentage r))
     (trades (projr (close_out sample_tick 90 (ledger_of [sample_trade ''short'' 100 1]))))
     = [(''CLOSED'', Some 90, Some (Finite 10), Some (Finite (5629499534213119 / 2 ^ 49)))]"
  using closure_profit_loss [OF latest_open_sample, of "''long''" 100 1 sample_tick 110]
        closure_profit_loss [OF latest_open_sample, of "''short''" 100 1 sample_tick 90]
  by (simp add: sample_trade_def ledger_of_def update_trade_status_def update_row_def
      null_if_nan_def float_eval)

end
